theory Spec2Isabelle
  imports Main
begin

section \<open>Python values and exceptions\<close>

text \<open>
  Python strings are modelled as \<^typ>\<open>string\<close>, one \<^typ>\<open>char\<close> per code point
  below 256. The values a handler or the settings validator can receive are the JSON-like
  values of Python: \<open>None\<close>, booleans, integers, strings, lists and dictionaries with
  string keys (an association list, since a dictionary keeps its insertion order).
\<close>

datatype py_value =
    PNone
  | PBool bool
  | PInt int
  | PStr string
  | PList "py_value list"
  | PDict "(string \<times> py_value) list"

text \<open>
  The exceptions of class \<open>Exception\<close> that the code raises or catches:
  \<open>HTTPException(status_code, detail)\<close> of the web framework, \<open>ValueError(v)\<close>
  carrying the rejected value, and any other exception, represented by the text that
  \<open>str(e)\<close> gives for it.
\<close>

datatype py_exception =
    HTTPException (status_code: int) (detail: string)
  | ValueError py_value
  | OtherException string

section \<open>String operations of the Python library\<close>

text \<open>\<open>str.isspace\<close> on one code point below 256.\<close>

definition isspace :: "char \<Rightarrow> bool" where
  "isspace c = (of_char c \<in> {9, 10, 11, 12, 13, 28, 29, 30, 31, 32, 133, 160 :: nat})"

text \<open>\<open>s.strip()\<close>: leading and trailing whitespace removed.\<close>

definition strip :: "string \<Rightarrow> string" where
  "strip s = rev (dropWhile isspace (rev (dropWhile isspace s)))"

text \<open>
  \<open>s.split(c)\<close> for a one-character separator: never empty, one more piece than
  there are separators. Read from the right, a separator opens a new first piece and
  any other character joins the first piece.
\<close>

definition split_step :: "char \<Rightarrow> char \<Rightarrow> string list \<Rightarrow> string list" where
  "split_step c x r = (if x = c then [] # r else (x # hd r) # tl r)"

fun split :: "char \<Rightarrow> string \<Rightarrow> string list" where
  "split c [] = [[]]"
| "split c (x # xs) = split_step c x (split c xs)"

text \<open>\<open>s.startswith(p)\<close>.\<close>

definition startswith :: "string \<Rightarrow> string \<Rightarrow> bool" where
  "startswith s p = (take (length p) s = p)"

section \<open>core/config.py\<close>

record Settings =
  PROJECT_NAME :: string
  VERSION :: string
  API_V1_STR :: string
  DATABASE_URL :: string
  TEST_DATABASE_URL :: "string option"
  SECRET_KEY :: string
  ALGORITHM :: string
  ACCESS_TOKEN_EXPIRE_MINUTES :: int
  REDIS_URL :: string
  GOOGLE_API_KEY :: "string option"
  UPLOAD_DIR :: string
  MAX_FILE_SIZE :: int
  SMTP_TLS :: bool
  SMTP_PORT :: "int option"
  SMTP_HOST :: "string option"
  SMTP_USER :: "string option"
  SMTP_PASSWORD :: "string option"
  BACKEND_CORS_ORIGINS :: "string list"
  ALLOWED_HOSTS :: "string list"
  LOG_LEVEL :: string

text \<open>
  The validator of \<open>BACKEND_CORS_ORIGINS\<close>, run before the field's own validation:
  \<^verbatim>\<open>
  if isinstance(v, str) and not v.startswith("["):
      return [i.strip() for i in v.split(",")]
  elif isinstance(v, (list, str)):
      return v
  raise ValueError(v)
  \<close>
\<close>

fun assemble_cors_origins :: "py_value \<Rightarrow> py_exception + py_value" where
  "assemble_cors_origins (PStr s) =
     (if \<not> startswith s ''['' then Inr (PList (map (\<lambda>i. PStr (strip i)) (split CHR '','' s)))
      else Inr (PStr s))"
| "assemble_cors_origins (PList l) = Inr (PList l)"
| "assemble_cors_origins v = Inl (ValueError v)"

text \<open>
  The process environment: \<open>os.getenv(name)\<close> is \<open>None\<close> for a variable that is
  not set.
\<close>

type_synonym environ = "string \<Rightarrow> string option"

text \<open>
  \<open>get_settings\<close> is wrapped in \<open>lru_cache()\<close> and takes no argument, so the cache has
  one entry at most. Objects are kept in a store, an object's address being its index:
  two calls return the same object when they return the same address. \<open>Settings()\<close>
  reads the environment and validates it; it belongs to the settings library and is a
  parameter here, raising or returning the field values. A call that raises stores
  nothing in the cache.
  \<^verbatim>\<open>
  @lru_cache()
  def get_settings() -> Settings:
      return Settings()
  \<close>
\<close>

record process =
  store :: "Settings list"
  cache :: "nat option"

definition process_start :: process where
  "process_start = \<lparr>store = [], cache = None\<rparr>"

definition get_settings ::
  "(environ \<Rightarrow> py_exception + Settings) \<Rightarrow> environ \<Rightarrow> process
     \<Rightarrow> (py_exception + nat) \<times> process" where
  "get_settings Settings_init env p =
     (case cache p of
        Some a \<Rightarrow> (Inr a, p)
      | None \<Rightarrow>
          (case Settings_init env of
             Inl e \<Rightarrow> (Inl e, p)
           | Inr s \<Rightarrow>
               (Inr (length (store p)),
                p\<lparr>store := store p @ [s], cache := Some (length (store p))\<rparr>)))"

text \<open>A sequence of calls, each under the environment of its moment.\<close>

fun get_settings_calls ::
  "(environ \<Rightarrow> py_exception + Settings) \<Rightarrow> environ list \<Rightarrow> process
     \<Rightarrow> (py_exception + nat) list \<times> process" where
  "get_settings_calls Settings_init [] p = ([], p)"
| "get_settings_calls Settings_init (env # envs) p =
     (case get_settings Settings_init env p of
        (r, p') \<Rightarrow>
          (case get_settings_calls Settings_init envs p' of
             (rs, p'') \<Rightarrow> (r # rs, p'')))"

section \<open>The web framework's default dispatch\<close>

text \<open>
  A route declared without a status code answers 200 with the value its handler returns;
  an \<open>HTTPException\<close> raised by the handler is answered with its status code and the
  body \<open>{"detail": detail}\<close>; any other exception is an internal server error.
\<close>

record http_response =
  http_status :: int
  http_body :: py_value

fun endpoint_response :: "py_exception + py_value \<Rightarrow> http_response" where
  "endpoint_response (Inr v) = \<lparr>http_status = 200, http_body = v\<rparr>"
| "endpoint_response (Inl (HTTPException s d)) =
     \<lparr>http_status = s, http_body = PDict [(''detail'', PStr d)]\<rparr>"
| "endpoint_response (Inl e) =
     \<lparr>http_status = 500, http_body = PStr ''Internal Server Error''\<rparr>"

section \<open>main.py\<close>

text \<open>
  \<^verbatim>\<open>
  @app.get("/health")
  async def health_check():
      return {"status": "OK", "timestamp": "2024-01-01T00:00:00Z",
              "version": settings.VERSION}
  \<close>
  The handler reads the module's settings object and nothing else.
\<close>

definition health_check :: "Settings \<Rightarrow> py_exception + py_value" where
  "health_check settings =
     Inr (PDict [(''status'', PStr ''OK''),
                 (''timestamp'', PStr ''2024-01-01T00:00:00Z''),
                 (''version'', PStr (VERSION settings))])"

section \<open>api/v1/endpoints/ai\_proxy.py\<close>

text \<open>
  The outbound call \<open>client.post(url, headers=..., json=...)\<close> and the response it gives:
  its status code and the result of \<open>response.json()\<close>, which raises on a body that
  is not JSON.
\<close>

record request =
  req_url :: string
  req_headers :: "(string \<times> string) list"
  req_json :: py_value

record response =
  resp_status_code :: int
  resp_json :: "py_exception + py_value"

text \<open>
  What the handlers take from outside: the environment, the HTTP client (a call raises,
  for a network failure, or returns a response) and the built-in \<open>str\<close> on a value
  and on an exception.
\<close>

record world =
  getenv :: environ
  post :: "request \<Rightarrow> py_exception + response"
  str_value :: "py_value \<Rightarrow> string"
  str_exception :: "py_exception \<Rightarrow> string"

text \<open>An f-string renders \<open>None\<close> as the text \<open>None\<close>.\<close>

definition format_optional :: "string option \<Rightarrow> string" where
  "format_optional v = (case v of None \<Rightarrow> ''None'' | Some s \<Rightarrow> s)"

definition insights_request :: "world \<Rightarrow> (string \<times> py_value) list \<Rightarrow> request" where
  "insights_request w patient_data =
     \<lparr>req_url = ''https://generativelanguage.googleapis.com/v1beta/models/gemini-2.5-flash:generateContent'',
      req_headers = [(''Authorization'', ''Bearer '' @ format_optional (getenv w ''GEMINI_API_KEY''))],
      req_json =
        PDict [(''contents'',
          PList [PDict [(''parts'',
            PList [PDict [(''text'',
              PStr (''Generate health insights for patient: '' @ str_value w (PDict patient_data)))]])]])]\<rparr>"

text \<open>The body of the \<open>try\<close> statement of \<open>generate_health_insights\<close>.\<close>

definition generate_health_insights_try ::
  "world \<Rightarrow> (string \<times> py_value) list \<Rightarrow> py_exception + py_value" where
  "generate_health_insights_try w patient_data =
     (case post w (insights_request w patient_data) of
        Inl e \<Rightarrow> Inl e
      | Inr response \<Rightarrow>
          (if resp_status_code response = 200 then resp_json response
           else Inl (HTTPException (resp_status_code response) ''Failed to generate insights'')))"

text \<open>\<open>except Exception as e: raise HTTPException(status_code=500, detail=str(e))\<close>\<close>

definition except_Exception :: "world \<Rightarrow> py_exception + 'a \<Rightarrow> py_exception + 'a" where
  "except_Exception w r =
     (case r of
        Inl e \<Rightarrow> Inl (HTTPException 500 (str_exception w e))
      | Inr v \<Rightarrow> Inr v)"

definition generate_health_insights ::
  "world \<Rightarrow> (string \<times> py_value) list \<Rightarrow> py_exception + py_value" where
  "generate_health_insights w patient_data =
     except_Exception w (generate_health_insights_try w patient_data)"

text \<open>
  \<open>summarize_medical_history\<close>: the body of its \<open>try\<close> statement is \<open>pass\<close>, and
  the function ends without a \<open>return\<close>, which gives \<open>None\<close>.
\<close>

definition summarize_medical_history_try ::
  "(string \<times> py_value) list \<Rightarrow> py_exception + py_value" where
  "summarize_medical_history_try medical_data = Inr PNone"

definition summarize_medical_history ::
  "world \<Rightarrow> (string \<times> py_value) list \<Rightarrow> py_exception + py_value" where
  "summarize_medical_history w medical_data =
     except_Exception w (summarize_medical_history_try medical_data)"

section \<open>Concrete surroundings for the examples\<close>

text \<open>
  \<open>sep.join(pieces)\<close>, decimal numerals, and \<open>repr\<close> and \<open>str\<close> on values whose
  strings hold printable characters without quotes or backslashes (on those, \<open>repr\<close>
  of a string is the string between single quotes).
\<close>

fun join :: "string \<Rightarrow> string list \<Rightarrow> string" where
  "join sep [] = []"
| "join sep [p] = p"
| "join sep (p # q # ps) = p @ sep @ join sep (q # ps)"

fun str_nat :: "nat \<Rightarrow> string" where
  "str_nat n =
     (if n < 10 then [''0123456789'' ! n]
      else str_nat (n div 10) @ [''0123456789'' ! (n mod 10)])"

definition str_int :: "int \<Rightarrow> string" where
  "str_int i = (if i < 0 then ''-'' @ str_nat (nat (- i)) else str_nat (nat i))"

definition repr_str :: "string \<Rightarrow> string" where
  "repr_str s = [CHR 0x27] @ s @ [CHR 0x27]"

fun py_repr :: "py_value \<Rightarrow> string" where
  "py_repr PNone = ''None''"
| "py_repr (PBool b) = (if b then ''True'' else ''False'')"
| "py_repr (PInt i) = str_int i"
| "py_repr (PStr s) = repr_str s"
| "py_repr (PList l) = ''['' @ join '', '' (map py_repr l) @ '']''"
| "py_repr (PDict d) =
     ''{'' @ join '', '' (map (\<lambda>kv. repr_str (fst kv) @ '': '' @ py_repr (snd kv)) d) @ ''}''"

definition py_str :: "py_value \<Rightarrow> string" where
  "py_str v = (case v of PStr s \<Rightarrow> s | _ \<Rightarrow> py_repr v)"

text \<open>
  \<open>str(e)\<close>: the web framework renders its \<open>HTTPException\<close> as
  \<open>"{status_code}: {detail}"\<close>; an exception built from one argument gives the
  \<open>str\<close> of that argument.
\<close>

fun exception_str :: "py_exception \<Rightarrow> string" where
  "exception_str (HTTPException s d) = str_int s @ '': '' @ d"
| "exception_str (ValueError v) = py_str v"
| "exception_str (OtherException m) = m"

text \<open>Four upstream services: one that answers 200, two that answer an error status
  and one that cannot be reached.\<close>

definition upstream_ok :: "request \<Rightarrow> py_exception + response" where
  "upstream_ok req =
     Inr \<lparr>resp_status_code = 200, resp_json = Inr (PDict [(''candidates'', PList [])])\<rparr>"

definition upstream_unavailable :: "request \<Rightarrow> py_exception + response" where
  "upstream_unavailable req =
     Inr \<lparr>resp_status_code = 503, resp_json = Inr (PDict [(''error'', PStr ''overloaded'')])\<rparr>"

definition upstream_not_found :: "request \<Rightarrow> py_exception + response" where
  "upstream_not_found req =
     Inr \<lparr>resp_status_code = 404, resp_json = Inr (PDict [(''error'', PStr ''no such model'')])\<rparr>"

definition upstream_unreachable :: "request \<Rightarrow> py_exception + response" where
  "upstream_unreachable req = Inl (OtherException ''[Errno 111] Connection refused'')"

text \<open>
  A fifth upstream, which answers 200 with the request it was sent, written as a JSON
  value: what the handler returns with it shows the request the handler made.
\<close>

definition request_as_value :: "request \<Rightarrow> py_value" where
  "request_as_value req =
     PDict [(''url'', PStr (req_url req)),
            (''headers'', PDict (map (\<lambda>kv. (fst kv, PStr (snd kv))) (req_headers req))),
            (''json'', req_json req)]"

definition upstream_echo :: "request \<Rightarrow> py_exception + response" where
  "upstream_echo req = Inr \<lparr>resp_status_code = 200, resp_json = Inr (request_as_value req)\<rparr>"

definition example_world :: "(request \<Rightarrow> py_exception + response) \<Rightarrow> world" where
  "example_world client =
     \<lparr>getenv = [''GEMINI_API_KEY'' \<mapsto> ''key-123''],
      post = client,
      str_value = py_str,
      str_exception = exception_str\<rparr>"

text \<open>
  A stand-in for \<open>Settings()\<close>: the two fields without a default are taken from the
  environment and are required, the key of the AI service is taken from the environment
  when it is there, and every other field has the default its class declares.
\<close>

definition example_Settings_init :: "environ \<Rightarrow> py_exception + Settings" where
  "example_Settings_init env =
     (case (env ''DATABASE_URL'', env ''SECRET_KEY'') of
        (Some db, Some key) \<Rightarrow>
          Inr \<lparr>PROJECT_NAME = ''Family Health Keeper'',
               VERSION = ''1.0.0'',
               API_V1_STR = ''/api/v1'',
               DATABASE_URL = db,
               TEST_DATABASE_URL = None,
               SECRET_KEY = key,
               ALGORITHM = ''HS256'',
               ACCESS_TOKEN_EXPIRE_MINUTES = 30,
               REDIS_URL = ''redis://localhost:6379/0'',
               GOOGLE_API_KEY = env ''GOOGLE_API_KEY'',
               UPLOAD_DIR = ''uploads'',
               MAX_FILE_SIZE = 10485760,
               SMTP_TLS = True,
               SMTP_PORT = None,
               SMTP_HOST = None,
               SMTP_USER = None,
               SMTP_PASSWORD = None,
               BACKEND_CORS_ORIGINS = [],
               ALLOWED_HOSTS = [''localhost'', ''127.0.0.1''],
               LOG_LEVEL = ''INFO''\<rparr>
      | _ \<Rightarrow> Inl (OtherException ''field required''))"

definition example_environ :: environ where
  "example_environ = [''DATABASE_URL'' \<mapsto> ''sqlite:///fhk.db'', ''SECRET_KEY'' \<mapsto> ''s3cret'']"

section \<open>Properties of the library model\<close>

lemma split_not_Nil: "split c s \<noteq> []"
  by (induction s) (auto simp: split_step_def)

lemma length_split: "length (split c s) = Suc (length (filter (\<lambda>x. x = c) s))"
  by (induction s) (auto simp: split_step_def split_not_Nil)

lemma split_pieces_free: "p \<in> set (split c s) \<Longrightarrow> c \<notin> set p"
proof (induction s arbitrary: p)
  case Nil
  then show ?case by simp
next
  case (Cons x xs)
  then show ?case
    by (cases "split c xs") (auto simp: split_step_def split_not_Nil split: if_splits)
qed

lemma join_split: "join [c] (split c s) = s"
proof (induction s)
  case Nil
  then show ?case by simp
next
  case (Cons x xs)
  then show ?case
    by (cases "split c xs"; cases "tl (split c xs)") (auto simp: split_step_def split_not_Nil)
qed

lemma last_dropWhile_keep: "dropWhile P xs \<noteq> [] \<Longrightarrow> last (dropWhile P xs) = last xs"
proof -
  assume ne: "dropWhile P xs \<noteq> []"
  have "last xs = last (takeWhile P xs @ dropWhile P xs)" by simp
  also have "\<dots> = last (dropWhile P xs)" using ne by (rule last_appendR)
  finally show ?thesis by simp
qed

lemma strip_ends:
  assumes "strip s \<noteq> []"
  shows "\<not> isspace (hd (strip s)) \<and> \<not> isspace (last (strip s))"
proof -
  let ?t = "dropWhile isspace s"
  let ?u = "dropWhile isspace (rev ?t)"
  from assms have u: "?u \<noteq> []" by (simp add: strip_def)
  have t: "?t \<noteq> []"
  proof
    assume a: "?t = []"
    have "?u = []" unfolding a by simp
    with u show False by (rule notE)
  qed
  have "last (strip s) = hd ?u" using u by (simp add: strip_def last_rev)
  moreover have "\<not> isspace (hd ?u)" using u by (rule hd_dropWhile)
  moreover have "hd (strip s) = last ?u" using u by (simp add: strip_def hd_rev)
  moreover have "last ?u = last (rev ?t)" using u by (rule last_dropWhile_keep)
  moreover have "last (rev ?t) = hd ?t" using t by (simp add: last_rev)
  moreover have "\<not> isspace (hd ?t)" using t by (rule hd_dropWhile)
  ultimately show ?thesis by simp
qed

lemma strip_middle:
  "\<exists>a b. s = a @ strip s @ b \<and> (\<forall>c \<in> set a. isspace c) \<and> (\<forall>c \<in> set b. isspace c)"
proof -
  let ?t = "dropWhile isspace s"
  let ?a = "takeWhile isspace s"
  let ?b = "rev (takeWhile isspace (rev ?t))"
  have e: "rev ?t = takeWhile isspace (rev ?t) @ dropWhile isspace (rev ?t)" by simp
  have "rev (rev ?t) = rev (takeWhile isspace (rev ?t) @ dropWhile isspace (rev ?t))"
    using arg_cong [OF e, of rev] .
  then have t: "?t = strip s @ ?b"
    unfolding strip_def by (simp only: rev_rev_ident rev_append)
  have "s = ?a @ ?t" by simp
  with t have "s = ?a @ strip s @ ?b" by simp
  moreover have "\<forall>c \<in> set ?a. isspace c" by (auto dest: set_takeWhileD)
  moreover have "\<forall>c \<in> set ?b. isspace c" by (auto dest: set_takeWhileD)
  ultimately show ?thesis by blast
qed

lemma startswith_bracket: "startswith s ''['' \<longleftrightarrow> (\<exists>t. s = CHR ''['' # t)"
  by (cases s) (auto simp: startswith_def)

text \<open>The written request determines the request.\<close>

lemma headers_as_value_inj:
  "map (\<lambda>kv. (fst kv, PStr (snd kv))) hs = map (\<lambda>kv. (fst kv, PStr (snd kv))) hs' \<Longrightarrow> hs = hs'"
proof (induction hs arbitrary: hs')
  case Nil
  then show ?case by simp
next
  case (Cons h hs)
  then show ?case by (cases hs') (auto simp: prod_eq_iff)
qed

lemma request_as_value_inj: "request_as_value a = request_as_value b \<Longrightarrow> a = b"
  by (cases a; cases b) (auto simp: request_as_value_def dest: headers_as_value_inj)

section \<open>The insights handler\<close>

text \<open>
  Claim C1. For every JSON object posted to the endpoint and every surrounding, when the
  upstream call returns a response with status code 200 whose body is the JSON value
  \<open>body\<close>, the handler returns \<open>body\<close> itself, and the endpoint answers 200 with
  that body.
\<close>

theorem generate_health_insights_200:
  assumes "post w (insights_request w patient_data) = Inr response"
    and "resp_status_code response = 200"
    and "resp_json response = Inr body"
  shows "generate_health_insights w patient_data = Inr body \<and>
         endpoint_response (generate_health_insights w patient_data) =
           \<lparr>http_status = 200, http_body = body\<rparr>"
  using assms
  by (simp add: generate_health_insights_def generate_health_insights_try_def
      except_Exception_def)

text \<open>An upstream that answers 200 with \<open>{"candidates": []}\<close>.\<close>

theorem generate_health_insights_200_witness:
  "post (example_world upstream_ok) (insights_request (example_world upstream_ok) [(''age'', PInt 7)]) =
     Inr \<lparr>resp_status_code = 200, resp_json = Inr (PDict [(''candidates'', PList [])])\<rparr>
   \<and> generate_health_insights (example_world upstream_ok) [(''age'', PInt 7)] =
     Inr (PDict [(''candidates'', PList [])])
   \<and> endpoint_response (generate_health_insights (example_world upstream_ok) [(''age'', PInt 7)]) =
     \<lparr>http_status = 200, http_body = PDict [(''candidates'', PList [])]\<rparr>"
proof -
  let ?w = "example_world upstream_ok"
  let ?r = "\<lparr>resp_status_code = 200, resp_json = Inr (PDict [(''candidates'', PList [])])\<rparr>"
  have a: "post ?w (insights_request ?w [(''age'', PInt 7)]) = Inr ?r"
    by (simp add: example_world_def upstream_ok_def)
  have b: "resp_status_code ?r = 200" by simp
  have c: "resp_json ?r = Inr (PDict [(''candidates'', PList [])])" by simp
  from a generate_health_insights_200 [OF a b c] show ?thesis by (rule conjI)
qed

text \<open>
  Claim C2 asks that an upstream status other than 200 is the status of the endpoint's
  answer. The handler raises the \<open>HTTPException\<close> carrying that status inside its own
  \<open>try\<close> statement, whose \<open>except Exception\<close> clause catches it: with an upstream
  that answers 503 the handler raises status 500, and the 503 only shows in the detail
  text.
\<close>

theorem generate_health_insights_503_becomes_500:
  "generate_health_insights (example_world upstream_unavailable) [(''age'', PInt 7)] =
     Inl (HTTPException 500 ''503: Failed to generate insights'')
   \<and> http_status (endpoint_response
        (generate_health_insights (example_world upstream_unavailable) [(''age'', PInt 7)])) = 500"
  by (simp add: generate_health_insights_def generate_health_insights_try_def
      except_Exception_def example_world_def upstream_unavailable_def str_int_def)

text \<open>
  Claim C3. Whatever the input and the surroundings, the handler either returns the JSON
  body of an upstream response with status 200, or raises an \<open>HTTPException\<close> with
  status code 500. In particular, on an upstream response with another status the
  exception built for it is caught and raised again as status 500, with the string of
  the first exception as detail.
\<close>

theorem generate_health_insights_only_500:
  "(\<forall>e. generate_health_insights w patient_data = Inl e \<longrightarrow> (\<exists>d. e = HTTPException 500 d))
   \<and> (\<forall>v. generate_health_insights w patient_data = Inr v \<longrightarrow>
         (\<exists>response. post w (insights_request w patient_data) = Inr response
            \<and> resp_status_code response = 200 \<and> resp_json response = Inr v))
   \<and> (\<forall>response. post w (insights_request w patient_data) = Inr response
            \<and> resp_status_code response \<noteq> 200 \<longrightarrow>
         generate_health_insights w patient_data =
           Inl (HTTPException 500
             (str_exception w
               (HTTPException (resp_status_code response) ''Failed to generate insights''))))"
  by (auto simp: generate_health_insights_def generate_health_insights_try_def
      except_Exception_def split: sum.splits if_splits)

text \<open>An upstream that answers 404.\<close>

theorem generate_health_insights_only_500_witness:
  "generate_health_insights (example_world upstream_not_found) [(''age'', PInt 7)] =
     Inl (HTTPException 500 ''404: Failed to generate insights'')"
proof -
  let ?w = "example_world upstream_not_found"
  let ?r = "\<lparr>resp_status_code = 404, resp_json = Inr (PDict [(''error'', PStr ''no such model'')])\<rparr>"
  have a: "post ?w (insights_request ?w [(''age'', PInt 7)]) = Inr ?r \<and> resp_status_code ?r \<noteq> 200"
    by (simp add: example_world_def upstream_not_found_def)
  with generate_health_insights_only_500 [of ?w "[(''age'', PInt 7)]"]
  have "generate_health_insights ?w [(''age'', PInt 7)] =
      Inl (HTTPException 500
        (str_exception ?w (HTTPException (resp_status_code ?r) ''Failed to generate insights'')))"
    by blast
  moreover have "str_exception ?w (HTTPException (resp_status_code ?r) ''Failed to generate insights'')
      = ''404: Failed to generate insights''"
    by (simp add: example_world_def str_int_def)
  ultimately show ?thesis by (simp only:)
qed

text \<open>
  Claim C4. When the outbound call raises an exception \<open>e\<close> (the host cannot be
  reached, for one), the handler raises \<open>HTTPException\<close> with status code 500 and
  \<open>str(e)\<close> as detail, which the endpoint answers as status 500 with that detail.
\<close>

theorem generate_health_insights_network_failure:
  assumes "post w (insights_request w patient_data) = Inl e"
  shows "generate_health_insights w patient_data = Inl (HTTPException 500 (str_exception w e)) \<and>
         endpoint_response (generate_health_insights w patient_data) =
           \<lparr>http_status = 500, http_body = PDict [(''detail'', PStr (str_exception w e))]\<rparr>"
  using assms
  by (simp add: generate_health_insights_def generate_health_insights_try_def
      except_Exception_def)

text \<open>An upstream that refuses the connection.\<close>

theorem generate_health_insights_network_failure_witness:
  "post (example_world upstream_unreachable)
       (insights_request (example_world upstream_unreachable) [(''age'', PInt 7)]) =
     Inl (OtherException ''[Errno 111] Connection refused'')
   \<and> generate_health_insights (example_world upstream_unreachable) [(''age'', PInt 7)] =
     Inl (HTTPException 500 ''[Errno 111] Connection refused'')"
proof -
  let ?w = "example_world upstream_unreachable"
  let ?e = "OtherException ''[Errno 111] Connection refused''"
  have a: "post ?w (insights_request ?w [(''age'', PInt 7)]) = Inl ?e"
    by (simp add: example_world_def upstream_unreachable_def)
  have b: "str_exception ?w ?e = ''[Errno 111] Connection refused''"
    by (simp add: example_world_def)
  from generate_health_insights_network_failure [OF a]
  have "generate_health_insights ?w [(''age'', PInt 7)] = Inl (HTTPException 500 (str_exception ?w ?e))"
    by (rule conjunct1)
  with b have "generate_health_insights ?w [(''age'', PInt 7)] =
      Inl (HTTPException 500 ''[Errno 111] Connection refused'')"
    by (simp only:)
  with a show ?thesis by (rule conjI)
qed


text \<open>
  Claim C5. The handler makes its outbound call with one request: the fixed URL, the
  single header \<open>Authorization\<close> whose value is \<open>Bearer\<close> and a space followed by
  the value of the environment variable \<open>GEMINI_API_KEY\<close> as the handler finds it
  when it is called, and a JSON body whose text is
  \<open>Generate health insights for patient:\<close> followed by the caller's data as
  \<open>str\<close> renders it. Whatever the HTTP client is, the outcome of the handler is the
  outcome of the client on that request; with the client that answers with the request
  it was sent, the handler returns that request. The handler has no access to a
  \<open>Settings\<close> object, and the variable \<open>GOOGLE_API_KEY\<close>, from which the
  settings field of that name is filled, has no effect on what the handler does.
\<close>

theorem generate_health_insights_outbound_request:
  "generate_health_insights (w\<lparr>post := client\<rparr>) patient_data =
     except_Exception w
       (case client
               \<lparr>req_url = ''https://generativelanguage.googleapis.com/v1beta/models/gemini-2.5-flash:generateContent'',
                req_headers =
                  [(''Authorization'', ''Bearer '' @ format_optional (getenv w ''GEMINI_API_KEY''))],
                req_json =
                  PDict [(''contents'',
                    PList [PDict [(''parts'',
                      PList [PDict [(''text'',
                        PStr (''Generate health insights for patient: '' @
                              str_value w (PDict patient_data)))]])]])]\<rparr> of
          Inl e \<Rightarrow> Inl e
        | Inr response \<Rightarrow>
            if resp_status_code response = 200 then resp_json response
            else Inl (HTTPException (resp_status_code response) ''Failed to generate insights''))
   \<and> (\<forall>key. getenv w ''GEMINI_API_KEY'' = Some key \<longrightarrow>
         generate_health_insights (w\<lparr>post := upstream_echo\<rparr>) patient_data =
           Inr (request_as_value
             \<lparr>req_url = ''https://generativelanguage.googleapis.com/v1beta/models/gemini-2.5-flash:generateContent'',
              req_headers = [(''Authorization'', ''Bearer '' @ key)],
              req_json =
                PDict [(''contents'',
                  PList [PDict [(''parts'',
                    PList [PDict [(''text'',
                      PStr (''Generate health insights for patient: '' @
                            str_value w (PDict patient_data)))]])]])]\<rparr>))
   \<and> (\<forall>v. generate_health_insights (w\<lparr>getenv := (getenv w)(''GOOGLE_API_KEY'' := v)\<rparr>) patient_data =
         generate_health_insights w patient_data)"
proof (intro conjI allI impI)
  show "generate_health_insights (w\<lparr>post := client\<rparr>) patient_data =
     except_Exception w
       (case client
               \<lparr>req_url = ''https://generativelanguage.googleapis.com/v1beta/models/gemini-2.5-flash:generateContent'',
                req_headers =
                  [(''Authorization'', ''Bearer '' @ format_optional (getenv w ''GEMINI_API_KEY''))],
                req_json =
                  PDict [(''contents'',
                    PList [PDict [(''parts'',
                      PList [PDict [(''text'',
                        PStr (''Generate health insights for patient: '' @
                              str_value w (PDict patient_data)))]])]])]\<rparr> of
          Inl e \<Rightarrow> Inl e
        | Inr response \<Rightarrow>
            if resp_status_code response = 200 then resp_json response
            else Inl (HTTPException (resp_status_code response) ''Failed to generate insights''))"
    by (simp add: generate_health_insights_def generate_health_insights_try_def
        insights_request_def except_Exception_def split: sum.splits)
next
  fix key
  assume "getenv w ''GEMINI_API_KEY'' = Some key"
  then show "generate_health_insights (w\<lparr>post := upstream_echo\<rparr>) patient_data =
           Inr (request_as_value
             \<lparr>req_url = ''https://generativelanguage.googleapis.com/v1beta/models/gemini-2.5-flash:generateContent'',
              req_headers = [(''Authorization'', ''Bearer '' @ key)],
              req_json =
                PDict [(''contents'',
                  PList [PDict [(''parts'',
                    PList [PDict [(''text'',
                      PStr (''Generate health insights for patient: '' @
                            str_value w (PDict patient_data)))]])]])]\<rparr>)"
    by (simp add: generate_health_insights_def generate_health_insights_try_def
        insights_request_def except_Exception_def upstream_echo_def format_optional_def)
next
  fix v
  show "generate_health_insights (w\<lparr>getenv := (getenv w)(''GOOGLE_API_KEY'' := v)\<rparr>) patient_data =
         generate_health_insights w patient_data"
    by (simp add: generate_health_insights_def generate_health_insights_try_def
        insights_request_def except_Exception_def split: sum.splits)
qed

text \<open>
  With the key \<open>key-123\<close> and the data \<open>{"age": 7}\<close>: the header is
  \<open>Bearer key-123\<close> and the text ends in \<open>{'age': 7}\<close>; setting
  \<open>GOOGLE_API_KEY\<close> beside the key changes nothing.
\<close>

theorem generate_health_insights_outbound_request_witness:
  "getenv (example_world upstream_ok) ''GEMINI_API_KEY'' = Some ''key-123''
   \<and> generate_health_insights ((example_world upstream_ok)\<lparr>post := upstream_echo\<rparr>)
         [(''age'', PInt 7)] =
       Inr (PDict
         [(''url'', PStr ''https://generativelanguage.googleapis.com/v1beta/models/gemini-2.5-flash:generateContent''),
          (''headers'', PDict [(''Authorization'', PStr ''Bearer key-123'')]),
          (''json'',
            PDict [(''contents'',
              PList [PDict [(''parts'',
                PList [PDict [(''text'',
                  PStr ''Generate health insights for patient: {'age': 7}'')]])]])])])
   \<and> generate_health_insights
         ((example_world upstream_ok)
            \<lparr>getenv := (getenv (example_world upstream_ok))(''GOOGLE_API_KEY'' \<mapsto> ''g-456'')\<rparr>)
         [(''age'', PInt 7)] =
       generate_health_insights (example_world upstream_ok) [(''age'', PInt 7)]"
proof -
  let ?w = "example_world upstream_ok"
  let ?pd = "[(''age'', PInt 7)]"
  let ?r = "\<lparr>req_url = ''https://generativelanguage.googleapis.com/v1beta/models/gemini-2.5-flash:generateContent'',
             req_headers = [(''Authorization'', ''Bearer '' @ ''key-123'')],
             req_json =
               PDict [(''contents'',
                 PList [PDict [(''parts'',
                   PList [PDict [(''text'',
                     PStr (''Generate health insights for patient: '' @
                           str_value ?w (PDict ?pd)))]])]])]\<rparr>"
  note t = generate_health_insights_outbound_request
    [where w = ?w and client = upstream_echo and patient_data = ?pd]
  have k: "getenv ?w ''GEMINI_API_KEY'' = Some ''key-123''"
    by (simp add: example_world_def)
  with t have a: "generate_health_insights (?w\<lparr>post := upstream_echo\<rparr>) ?pd =
      Inr (request_as_value ?r)"
    by blast
  have b: "request_as_value ?r =
      PDict
         [(''url'', PStr ''https://generativelanguage.googleapis.com/v1beta/models/gemini-2.5-flash:generateContent''),
          (''headers'', PDict [(''Authorization'', PStr ''Bearer key-123'')]),
          (''json'',
            PDict [(''contents'',
              PList [PDict [(''parts'',
                PList [PDict [(''text'',
                  PStr ''Generate health insights for patient: {'age': 7}'')]])]])])]"
    by (simp add: request_as_value_def example_world_def py_str_def repr_str_def str_int_def)
  from a b have c: "generate_health_insights (?w\<lparr>post := upstream_echo\<rparr>) ?pd =
      Inr (PDict
         [(''url'', PStr ''https://generativelanguage.googleapis.com/v1beta/models/gemini-2.5-flash:generateContent''),
          (''headers'', PDict [(''Authorization'', PStr ''Bearer key-123'')]),
          (''json'',
            PDict [(''contents'',
              PList [PDict [(''parts'',
                PList [PDict [(''text'',
                  PStr ''Generate health insights for patient: {'age': 7}'')]])]])])])"
    by (simp only:)
  from t have d: "generate_health_insights
         (?w\<lparr>getenv := (getenv ?w)(''GOOGLE_API_KEY'' \<mapsto> ''g-456'')\<rparr>) ?pd =
       generate_health_insights ?w ?pd"
    by blast
  from k c d show ?thesis by blast
qed

section \<open>The validator of the origin list\<close>

text \<open>
  Claim C6. \<open>assemble_cors_origins\<close> maps the string
  \<open>http://a.com,http://b.com\<close> to the list of the two origins in that order, returns a
  list unchanged, and raises \<open>ValueError\<close> on every value that is neither a string
  nor a list.
\<close>

theorem assemble_cors_origins_shapes:
  "assemble_cors_origins (PStr ''http://a.com,http://b.com'') =
     Inr (PList [PStr ''http://a.com'', PStr ''http://b.com''])
   \<and> assemble_cors_origins (PList l) = Inr (PList l)
   \<and> ((\<forall>s. v \<noteq> PStr s) \<and> (\<forall>l. v \<noteq> PList l) \<longrightarrow> assemble_cors_origins v = Inl (ValueError v))"
proof (intro conjI impI)
  show "assemble_cors_origins (PStr ''http://a.com,http://b.com'') =
     Inr (PList [PStr ''http://a.com'', PStr ''http://b.com''])"
    by (simp add: startswith_def strip_def isspace_def split_step_def)
  show "assemble_cors_origins (PList l) = Inr (PList l)" by simp
  assume "(\<forall>s. v \<noteq> PStr s) \<and> (\<forall>l. v \<noteq> PList l)"
  then show "assemble_cors_origins v = Inl (ValueError v)"
    by (cases v) simp_all
qed

text \<open>A list, an integer and a dictionary.\<close>

theorem assemble_cors_origins_shapes_witness:
  "assemble_cors_origins (PList [PStr ''http://a.com'']) = Inr (PList [PStr ''http://a.com''])
   \<and> assemble_cors_origins (PInt 3) = Inl (ValueError (PInt 3))
   \<and> assemble_cors_origins (PDict [(''origins'', PNone)]) = Inl (ValueError (PDict [(''origins'', PNone)]))"
proof -
  have a: "(\<forall>s. PInt 3 \<noteq> PStr s) \<and> (\<forall>l. PInt 3 \<noteq> PList l)" by simp
  have b: "(\<forall>s. PDict [(''origins'', PNone)] \<noteq> PStr s) \<and> (\<forall>l. PDict [(''origins'', PNone)] \<noteq> PList l)"
    by simp
  from assemble_cors_origins_shapes [of "[PStr ''http://a.com'']" "PInt 3"] a
    assemble_cors_origins_shapes [of "[]" "PDict [(''origins'', PNone)]"] b
  show ?thesis by blast
qed

text \<open>
  Claim C7. A string that does not begin with the character \<open>[\<close> is split at its
  commas and every piece is stripped of leading and trailing whitespace; a string that
  begins with \<open>[\<close> is returned as it is. (The pieces are those of
  \<open>join_split\<close>, \<open>split_pieces_free\<close> and \<open>length_split\<close>; a stripped
  piece is the one of \<open>strip_middle\<close> and \<open>strip_ends\<close>.)
\<close>

theorem assemble_cors_origins_string:
  "((\<nexists>t. s = CHR ''['' # t) \<longrightarrow>
      assemble_cors_origins (PStr s) = Inr (PList (map (\<lambda>i. PStr (strip i)) (split CHR '','' s))))
   \<and> ((\<exists>t. s = CHR ''['' # t) \<longrightarrow> assemble_cors_origins (PStr s) = Inr (PStr s))"
  unfolding startswith_bracket [symmetric] by simp

text \<open>A string with blanks and a trailing comma, and a string in JSON list form.\<close>

theorem assemble_cors_origins_string_witness:
  \<open>assemble_cors_origins (PStr '' http://a.com , http://b.com,'') =
     Inr (PList [PStr ''http://a.com'', PStr ''http://b.com'', PStr ''''])
   \<and> assemble_cors_origins (PStr ''["http://a.com", "http://b.com"]'') =
     Inr (PStr ''["http://a.com", "http://b.com"]'')\<close>
proof -
  let ?s = "'' http://a.com , http://b.com,''"
  let ?j = \<open>''["http://a.com", "http://b.com"]''\<close>
  have a: "\<nexists>t. ?s = CHR ''['' # t" by simp
  with assemble_cors_origins_string [of ?s]
  have "assemble_cors_origins (PStr ?s) = Inr (PList (map (\<lambda>i. PStr (strip i)) (split CHR '','' ?s)))"
    by blast
  moreover have "map (\<lambda>i. PStr (strip i)) (split CHR '','' ?s) =
      [PStr ''http://a.com'', PStr ''http://b.com'', PStr '''']"
    by (simp add: strip_def isspace_def split_step_def)
  ultimately have x: "assemble_cors_origins (PStr ?s) =
      Inr (PList [PStr ''http://a.com'', PStr ''http://b.com'', PStr ''''])"
    by (simp only:)
  have b: "\<exists>t. ?j = CHR ''['' # t" by simp
  with assemble_cors_origins_string [of ?j]
  have "assemble_cors_origins (PStr ?j) = Inr (PStr ?j)" by blast
  with x show ?thesis by (rule conjI)
qed

section \<open>The liveness handler\<close>

text \<open>
  Claim C8. For every settings object, \<open>health_check\<close> returns the dictionary with
  status \<open>OK\<close>, the fixed timestamp \<open>2024-01-01T00:00:00Z\<close> and the configured
  version, which the endpoint answers with status 200. The handler takes nothing but the
  settings object: no database and no upstream service.
\<close>

theorem health_check_response:
  "health_check settings =
     Inr (PDict [(''status'', PStr ''OK''),
                 (''timestamp'', PStr ''2024-01-01T00:00:00Z''),
                 (''version'', PStr (VERSION settings))])
   \<and> endpoint_response (health_check settings) =
     \<lparr>http_status = 200,
      http_body = PDict [(''status'', PStr ''OK''),
                         (''timestamp'', PStr ''2024-01-01T00:00:00Z''),
                         (''version'', PStr (VERSION settings))]\<rparr>"
  by (simp add: health_check_def)

section \<open>The summary handler\<close>

text \<open>
  Claim C9. For every JSON object and every surrounding, \<open>summarize_medical_history\<close>
  returns \<open>None\<close>; the body of its \<open>try\<close> statement raises on no input, so the
  \<open>except\<close> clause is never entered and the handler raises nothing.
\<close>

theorem summarize_medical_history_noop:
  "summarize_medical_history w medical_data = Inr PNone
   \<and> (\<forall>e. summarize_medical_history_try medical_data \<noteq> Inl e)
   \<and> (\<forall>e. summarize_medical_history w medical_data \<noteq> Inl e)
   \<and> http_status (endpoint_response (summarize_medical_history w medical_data)) = 200"
  by (simp add: summarize_medical_history_def summarize_medical_history_try_def
      except_Exception_def)

section \<open>The settings singleton\<close>

lemma get_settings_cached:
  "cache p = Some a \<Longrightarrow> get_settings Settings_init env p = (Inr a, p)"
  by (simp add: get_settings_def)

lemma get_settings_calls_cached:
  "cache p = Some a \<Longrightarrow>
   get_settings_calls Settings_init envs p = (replicate (length envs) (Inr a), p)"
  by (induction envs) (simp_all add: get_settings_cached)

lemma get_settings_first:
  assumes "get_settings Settings_init env process_start = (Inr a, p)"
  shows "\<exists>s. Settings_init env = Inr s \<and> a = 0 \<and> p = \<lparr>store = [s], cache = Some 0\<rparr>"
  using assms
  by (auto simp: get_settings_def process_start_def split: sum.splits)

text \<open>
  Claim C10. When the first call of \<open>get_settings\<close> in a process returns a settings
  object, every later call returns that same object, whatever the environment has
  become in between, and leaves the process as the first call left it: one
  \<open>Settings\<close> object has been built, from the environment of the first call.
\<close>

theorem get_settings_memoized:
  assumes "get_settings Settings_init env process_start = (Inr a, p)"
  shows "get_settings_calls Settings_init envs p = (replicate (length envs) (Inr a), p)
       \<and> length (store p) = 1
       \<and> Settings_init env = Inr (store p ! a)"
proof -
  from get_settings_first [OF assms] obtain s where
    s: "Settings_init env = Inr s" and a: "a = 0" and p: "p = \<lparr>store = [s], cache = Some 0\<rparr>"
    by blast
  from p a have "cache p = Some a" by simp
  then have "get_settings_calls Settings_init envs p = (replicate (length envs) (Inr a), p)"
    by (rule get_settings_calls_cached)
  moreover from p have "length (store p) = 1" by simp
  moreover from s a p have "Settings_init env = Inr (store p ! a)" by simp
  ultimately show ?thesis by blast
qed

lemma example_first_call:
  "get_settings example_Settings_init example_environ process_start =
     (Inr 0, snd (get_settings example_Settings_init example_environ process_start))"
  by (simp add: get_settings_def process_start_def example_Settings_init_def example_environ_def)

text \<open>
  Two later calls, the first of them under an empty environment, in which building
  the settings again would fail.
\<close>

theorem get_settings_memoized_witness:
  "get_settings example_Settings_init example_environ process_start =
     (Inr 0, snd (get_settings example_Settings_init example_environ process_start))
   \<and> get_settings_calls example_Settings_init [Map.empty, example_environ]
         (snd (get_settings example_Settings_init example_environ process_start)) =
       ([Inr 0, Inr 0], snd (get_settings example_Settings_init example_environ process_start))
   \<and> length (store (snd (get_settings example_Settings_init example_environ process_start))) = 1
   \<and> example_Settings_init Map.empty = Inl (OtherException ''field required'')"
proof -
  let ?p = "snd (get_settings example_Settings_init example_environ process_start)"
  note f = example_first_call
  from get_settings_memoized [OF f, of "[Map.empty, example_environ]"]
  have "get_settings_calls example_Settings_init [Map.empty, example_environ] ?p =
          (replicate (length [Map.empty, example_environ :: environ]) (Inr 0), ?p)
        \<and> length (store ?p) = 1"
    by blast
  then have "get_settings_calls example_Settings_init [Map.empty, example_environ] ?p =
          ([Inr 0, Inr 0], ?p)
        \<and> length (store ?p) = 1"
    by (simp add: numeral_2_eq_2)
  moreover have "example_Settings_init Map.empty = Inl (OtherException ''field required'')"
    by (simp add: example_Settings_init_def)
  ultimately show ?thesis using f by blast
qed

end
